theory Spec2Isabelle
  imports Main
begin

section \<open>Shared data model\<close>

text \<open>
  The result shapes of \<^verbatim>\<open>types/compilation/compilation.interfaces.ts\<close> as far as the two
  compilers read or write them. An output line is an object with a \<^verbatim>\<open>text\<close> field; a basic
  execution result carries the exit code, the timeout flag and the two line streams; a build
  step is such a result with the step's label; a compilation result adds the list of build
  steps, the input file name and the optional fields \<^verbatim>\<open>executableFilename\<close> and
  \<^verbatim>\<open>dirPath\<close> (\<^verbatim>\<open>undefined\<close> is \<open>None\<close>).
\<close>

record ResultLine =
  text_of :: string

record BasicExecutionResult =
  code :: int
  timedOut :: bool
  stdout :: "ResultLine list"
  stderr :: "ResultLine list"

record BuildStep = BasicExecutionResult +
  step_label :: string

record CompilationResult = BasicExecutionResult +
  buildsteps :: "BuildStep list"
  inputFilename :: "string option"
  executableFilename :: "string option"
  dirPath :: "string option"

text \<open>
  Execution options: only \<^verbatim>\<open>customCwd\<close> is touched by the code; every other field travels
  in the record's extension. Filters: only \<^verbatim>\<open>binary\<close> is read.
\<close>

record ExecutionOptionsWithEnv =
  customCwd :: "string option"

record ParseFiltersAndOutputOptions =
  binary :: "bool option"

text \<open>JavaScript truthiness of an optional string: \<^verbatim>\<open>undefined\<close> and \<^verbatim>\<open>''\<close> are falsy.\<close>

definition falsyString :: "string option \<Rightarrow> bool" where
  "falsyString s = (case s of None \<Rightarrow> True | Some t \<Rightarrow> t = [])"

text \<open>\<^verbatim>\<open>filters?.binary !== true\<close> is the negation of the following.\<close>

definition binaryIsTrue :: "'f ParseFiltersAndOutputOptions_scheme option \<Rightarrow> bool" where
  "binaryIsTrue filters = (case filters of None \<Rightarrow> False | Some f \<Rightarrow> binary f = Some True)"

text \<open>
  Strings are the UTF-8 bytes of the JavaScript strings. \<^verbatim>\<open>lines.join('\n')\<close>,
  \<^verbatim>\<open>String.prototype.startsWith\<close> and \<^verbatim>\<open>String.prototype.endsWith\<close>.
\<close>

fun joinWith :: "string \<Rightarrow> string list \<Rightarrow> string" where
  "joinWith sep [] = []"
| "joinWith sep [x] = x"
| "joinWith sep (x # y # ys) = x @ sep @ joinWith sep (y # ys)"

definition startsWith :: "string \<Rightarrow> string \<Rightarrow> bool" where
  "startsWith s prefix' = (take (length prefix') s = prefix')"

definition endsWith :: "string \<Rightarrow> string \<Rightarrow> bool" where
  "endsWith s suffix' =
     (length suffix' \<le> length s \<and> drop (length s - length suffix') s = suffix')"

text \<open>
  \<^verbatim>\<open>String.prototype.trim\<close> removes the white space and the line terminators of ECMAScript
  from both ends. These are, with their UTF-8 encodings: tab, line feed, vertical tab, form
  feed, carriage return and space (one byte each); U+00A0; U+1680; U+2000 to U+200A; the line
  and paragraph separators U+2028 and U+2029; U+202F; U+205F; U+3000; and the byte order mark
  U+FEFF. A UTF-8 lead byte begins every encoding of more than one byte, so an encoding found
  at the end of a well-formed string is a whole character.
\<close>

definition whiteSpace :: "string list" where
  "whiteSpace =
     [[CHR 0x09], [CHR 0x0A], [CHR 0x0B], [CHR 0x0C], [CHR 0x0D], [CHR 0x20],
      [CHR 0xC2, CHR 0xA0],
      [CHR 0xE1, CHR 0x9A, CHR 0x80],
      [CHR 0xE2, CHR 0x80, CHR 0x80], [CHR 0xE2, CHR 0x80, CHR 0x81],
      [CHR 0xE2, CHR 0x80, CHR 0x82], [CHR 0xE2, CHR 0x80, CHR 0x83],
      [CHR 0xE2, CHR 0x80, CHR 0x84], [CHR 0xE2, CHR 0x80, CHR 0x85],
      [CHR 0xE2, CHR 0x80, CHR 0x86], [CHR 0xE2, CHR 0x80, CHR 0x87],
      [CHR 0xE2, CHR 0x80, CHR 0x88], [CHR 0xE2, CHR 0x80, CHR 0x89],
      [CHR 0xE2, CHR 0x80, CHR 0x8A],
      [CHR 0xE2, CHR 0x80, CHR 0xA8], [CHR 0xE2, CHR 0x80, CHR 0xA9],
      [CHR 0xE2, CHR 0x80, CHR 0xAF],
      [CHR 0xE2, CHR 0x81, CHR 0x9F],
      [CHR 0xE3, CHR 0x80, CHR 0x80],
      [CHR 0xEF, CHR 0xBB, CHR 0xBF]]"

function trimStart :: "string \<Rightarrow> string" where
  "trimStart s =
     (case find (startsWith s) whiteSpace of
        None \<Rightarrow> s
      | Some ws \<Rightarrow> trimStart (drop (length ws) s))"
  by pat_completeness auto
termination
proof (relation "measure length")
  show "wf (measure length)" by simp
next
  fix s :: string and ws :: string
  assume "find (startsWith s) whiteSpace = Some ws"
  then have "ws \<in> set whiteSpace" and starts: "startsWith s ws"
    by (auto simp add: find_Some_iff)
  then have "ws \<noteq> []"
    by (auto simp add: whiteSpace_def)
  with starts have "s \<noteq> []"
    by (auto simp add: startsWith_def)
  with \<open>ws \<noteq> []\<close> show "(drop (length ws) s, s) \<in> measure length"
    by simp
qed

function trimEnd :: "string \<Rightarrow> string" where
  "trimEnd s =
     (case find (endsWith s) whiteSpace of
        None \<Rightarrow> s
      | Some ws \<Rightarrow> trimEnd (take (length s - length ws) s))"
  by pat_completeness auto
termination
proof (relation "measure length")
  show "wf (measure length)" by simp
next
  fix s :: string and ws :: string
  assume "find (endsWith s) whiteSpace = Some ws"
  then have "ws \<in> set whiteSpace" and ends: "endsWith s ws"
    by (auto simp add: find_Some_iff)
  then have "ws \<noteq> []"
    by (auto simp add: whiteSpace_def)
  with ends have "s \<noteq> []"
    by (auto simp add: endsWith_def)
  with \<open>ws \<noteq> []\<close> show "(take (length s - length ws) s, s) \<in> measure length"
    by simp
qed

definition trim :: "string \<Rightarrow> string" where
  "trim s = trimEnd (trimStart s)"

section \<open>The collaborators of a compiler\<close>

text \<open>
  The process runner (\<^verbatim>\<open>BaseCompiler.exec\<close>) is external: it is a parameter. Its effects
  are threaded through a state \<open>'w\<close> (the file system, the clock, the process table), so two
  calls with the same arguments may answer differently.
\<close>

type_synonym ('w, 'x) runner =
  "'w \<Rightarrow> string \<Rightarrow> string list \<Rightarrow> 'x ExecutionOptionsWithEnv_scheme
     \<Rightarrow> BasicExecutionResult \<times> 'w"

text \<open>Modelled from the spec: \<^verbatim>\<open>BaseCompiler.doBuildstepAndAddToResult\<close>, which lives in
  \<^verbatim>\<open>lib/base-compiler.ts\<close> and is not among the sources. The spec's sequencer says what
  happens after each step: its result is appended to \<^verbatim>\<open>buildsteps\<close>, its stdout and stderr
  are merged into the aggregated fields, a non-zero exit code becomes the overall exit code,
  and a timeout propagates to the overall \<^verbatim>\<open>timedOut\<close>. The accumulator is mutated in the
  source; here the updated accumulator is returned beside the step.
\<close>

definition doBuildstepAndAddToResult ::
  "('w, 'x) runner \<Rightarrow> 'w \<Rightarrow> CompilationResult \<Rightarrow> string \<Rightarrow> string \<Rightarrow> string list
     \<Rightarrow> 'x ExecutionOptionsWithEnv_scheme \<Rightarrow> BuildStep \<times> CompilationResult \<times> 'w" where
  "doBuildstepAndAddToResult exec w result name command args execParams =
     (let (out, w') = exec w command args execParams;
          stepResult = \<lparr>code = code out, timedOut = timedOut out, stdout = stdout out,
                        stderr = stderr out, step_label = name\<rparr>;
          result' = result\<lparr>
            code := (if code stepResult \<noteq> 0 then code stepResult else code result),
            timedOut := (timedOut result \<or> timedOut stepResult),
            stdout := stdout result @ stdout stepResult,
            stderr := stderr result @ stderr stepResult,
            buildsteps := buildsteps result @ [stepResult]\<rparr>
      in (stepResult, result', w'))"

section \<open>The Sail compiler (\<^verbatim>\<open>lib/compilers/sail.ts\<close>)\<close>

text \<open>
  What \<^verbatim>\<open>SailCompiler\<close> inherits or imports and the sources do not hold: the process runner,
  \<^verbatim>\<open>getDefaultExecOptions\<close> and Node's \<^verbatim>\<open>path.dirname\<close> and \<^verbatim>\<open>path.join\<close>.
\<close>

record ('w, 'x) SailEnv =
  exec :: "('w, 'x) runner"
  getDefaultExecOptions :: "'x ExecutionOptionsWithEnv_scheme"
  path_dirname :: "string \<Rightarrow> string"
  path_join :: "string \<Rightarrow> string \<Rightarrow> string"

text \<open>The constructor sets \<^verbatim>\<open>this.outputFilebase = 'model'\<close>.\<close>

definition outputFilebase :: string where
  "outputFilebase = ''model''"

definition optionsForFilter :: "'f ParseFiltersAndOutputOptions_scheme \<Rightarrow> 'a \<Rightarrow> string list" where
  "optionsForFilter filters outputFilename = []"

text \<open>The argument list of the third step, from the trimmed output of the second.\<close>

definition ccArguments :: "string \<Rightarrow> string list" where
  "ccArguments sailDir =
     [outputFilebase @ ''.c'',
      ''-I'', sailDir @ ''/lib'',
      sailDir @ ''/lib/elf.c'',
      sailDir @ ''/lib/rts.c'',
      sailDir @ ''/lib/sail.c'',
      sailDir @ ''/lib/sail_failure.c'',
      ''-lz'',
      ''-lgmp'',
      ''-o'', outputFilebase @ ''.exe'']"

text \<open>
  \<^verbatim>\<open>SailCompiler.runCompiler\<close>. The three awaited steps run one after the other; each early
  \<^verbatim>\<open>return fullResult\<close> is a branch. The result is paired with the final state of the world.
  The assignment to \<^verbatim>\<open>execOptions.customCwd\<close> also changes the caller's object; nothing
  below reads it again, so the updated options stay local.
\<close>

definition runCompiler ::
  "('w, 'x) SailEnv \<Rightarrow> 'w \<Rightarrow> string \<Rightarrow> string list \<Rightarrow> string
     \<Rightarrow> 'x ExecutionOptionsWithEnv_scheme option
     \<Rightarrow> 'f ParseFiltersAndOutputOptions_scheme option \<Rightarrow> CompilationResult \<times> 'w" where
  "runCompiler E w compiler options inputFile execOptions0 filters =
     (let execOptions1 = (case execOptions0 of None \<Rightarrow> getDefaultExecOptions E | Some e \<Rightarrow> e);
          execOptions = (if falsyString (customCwd execOptions1)
                         then execOptions1\<lparr>customCwd := Some (path_dirname E inputFile)\<rparr>
                         else execOptions1);
          fullResult = \<lparr>code = 0, timedOut = False, stdout = [], stderr = [],
                        buildsteps = [], inputFilename = Some inputFile,
                        executableFilename = None, dirPath = None\<rparr>;
          (sailResult, fullResult1, w1) =
             doBuildstepAndAddToResult (exec E) w fullResult ''Sail to C'' compiler
               (options @ [''-o'', outputFilebase]) execOptions
      in if code sailResult \<noteq> 0 \<or> \<not> binaryIsTrue filters then (fullResult1, w1)
         else
           let fullResult2 = fullResult1\<lparr>executableFilename := Some (inputFile @ ''.exe'')\<rparr>;
               (sailDirResult, fullResult3, w2) =
                  doBuildstepAndAddToResult (exec E) w1 fullResult2 ''Get Sail dir'' compiler
                    [''-dir''] execOptions
           in if code sailDirResult \<noteq> 0 then (fullResult3, w2)
              else
                let sailDir = trim (joinWith [CHR 0x0A] (map text_of (stdout sailDirResult)));
                    (ccResult, fullResult4, w3) =
                       doBuildstepAndAddToResult (exec E) w2 fullResult3 ''C to binary'' ''cc''
                         (ccArguments sailDir) execOptions
                in (fullResult4, w3))"

definition getOutputFilename :: "('w, 'x) SailEnv \<Rightarrow> string \<Rightarrow> string \<Rightarrow> 'k \<Rightarrow> string" where
  "getOutputFilename E dirPath' outputFilebase' key = path_join E dirPath' (outputFilebase' @ ''.c'')"

definition getExecutableFilename :: "('w, 'x) SailEnv \<Rightarrow> string \<Rightarrow> string \<Rightarrow> 'k \<Rightarrow> string" where
  "getExecutableFilename E dirPath' outputFilebase' key =
     path_join E dirPath' (outputFilebase' @ ''.exe'')"

definition getSharedLibraryPathsAsArguments ::
  "'l list \<Rightarrow> string option \<Rightarrow> string option \<Rightarrow> string \<Rightarrow> string list" where
  "getSharedLibraryPathsAsArguments libraries libDownloadPath toolchainPath dirPath' = []"

section \<open>The Kotlin compiler (\<^verbatim>\<open>lib/compilers/kotlin.ts\<close>)\<close>

subsection \<open>Array and string primitives of JavaScript\<close>

text \<open>
  \<^verbatim>\<open>Array.prototype.findIndex\<close> (the index of the first element that satisfies the predicate,
  or \<open>-1\<close>), \<^verbatim>\<open>Array.prototype.slice\<close> with its treatment of negative and too large
  indices, and underscore's \<^verbatim>\<open>_.compact\<close>, which drops the falsy elements: among strings,
  the empty one.
\<close>

fun findIndexFrom :: "('a \<Rightarrow> bool) \<Rightarrow> int \<Rightarrow> 'a list \<Rightarrow> int" where
  "findIndexFrom p k [] = - 1"
| "findIndexFrom p k (x # xs) = (if p x then k else findIndexFrom p (k + 1) xs)"

definition findIndex :: "('a \<Rightarrow> bool) \<Rightarrow> 'a list \<Rightarrow> int" where
  "findIndex p xs = findIndexFrom p 0 xs"

definition slice :: "'a list \<Rightarrow> int \<Rightarrow> int \<Rightarrow> 'a list" where
  "slice xs start end' =
     (let len = int (length xs);
          k = (if start < 0 then max (len + start) 0 else min start len);
          final = (if end' < 0 then max (len + end') 0 else min end' len)
      in take (nat (final - k)) (drop (nat k) xs))"

definition compact :: "string list \<Rightarrow> string list" where
  "compact xs = filter (\<lambda>s. s \<noteq> []) xs"

subsection \<open>\<^verbatim>\<open>KotlinCompiler.runCompiler\<close>\<close>

text \<open>
  A compilation result with the two fields \<^verbatim>\<open>runCompiler\<close> adds. What the class inherits
  and the sources do not hold is a parameter: the process runner, the default execution
  options, \<^verbatim>\<open>path.dirname\<close>, the classpath arguments of \<^verbatim>\<open>JavaCompiler\<close>, and the three
  functions that shape the result.
\<close>

record ('l, 'i) KotlinCompilationResult = CompilationResult +
  languageId :: 'l
  instructionSet :: 'i

record ('w, 'x, 'f, 'l, 'i) KotlinCompileEnv =
  kexec :: "('w, 'x) runner"
  kgetDefaultExecOptions :: "'x ExecutionOptionsWithEnv_scheme"
  kpath_dirname :: "string \<Rightarrow> string"
  getClasspathArgument :: "string list"
  transformToCompilationResult :: "BasicExecutionResult \<Rightarrow> string \<Rightarrow> CompilationResult"
  getCompilerResultLanguageId :: "'f ParseFiltersAndOutputOptions_scheme option \<Rightarrow> 'l"
  getInstructionSetFromCompilerArgs :: "string list \<Rightarrow> 'i"

definition sourceFileOptionIndex :: "string list \<Rightarrow> int" where
  "sourceFileOptionIndex options = findIndex (\<lambda>option. endsWith option ''.kt'') options"

definition userOptions :: "string list \<Rightarrow> string list" where
  "userOptions options = slice options 0 (sourceFileOptionIndex options)"

definition kotlinOptions :: "string list \<Rightarrow> string list \<Rightarrow> string \<Rightarrow> string list" where
  "kotlinOptions classpath options inputFile =
     compact (classpath @ userOptions options @ [inputFile])"

definition kotlin_runCompiler ::
  "('w, 'x, 'f, 'l, 'i) KotlinCompileEnv \<Rightarrow> 'w \<Rightarrow> string \<Rightarrow> string list \<Rightarrow> string
     \<Rightarrow> 'x ExecutionOptionsWithEnv_scheme option
     \<Rightarrow> 'f ParseFiltersAndOutputOptions_scheme option
     \<Rightarrow> ('l, 'i) KotlinCompilationResult \<times> 'w" where
  "kotlin_runCompiler E w compiler options inputFile execOptions0 filters =
     (let execOptions1 = (case execOptions0 of None \<Rightarrow> kgetDefaultExecOptions E | Some e \<Rightarrow> e);
          execOptions = (if falsyString (customCwd execOptions1)
                         then execOptions1\<lparr>customCwd := Some (kpath_dirname E inputFile)\<rparr>
                         else execOptions1);
          (result, w') = kexec E w compiler
                           (kotlinOptions (getClasspathArgument E) options inputFile) execOptions;
          t = transformToCompilationResult E result inputFile
      in (\<lparr>code = code t, timedOut = timedOut t, stdout = stdout t, stderr = stderr t,
           buildsteps = buildsteps t, inputFilename = inputFilename t,
           executableFilename = executableFilename t, dirPath = dirPath t,
           languageId = getCompilerResultLanguageId E filters,
           instructionSet = getInstructionSetFromCompilerArgs E options\<rparr>, w'))"

subsection \<open>\<^verbatim>\<open>KotlinCompiler.handleInterpreting\<close>\<close>

text \<open>
  A cache key has the \<^verbatim>\<open>options\<close> the code overwrites; its other fields (source, libraries,
  backend options, filters) travel in the record's extension. Execution parameters have the
  \<^verbatim>\<open>args\<close> the code overwrites. The result of an execution is a basic execution result with
  \<^verbatim>\<open>didExecute\<close> and the build it ran.
\<close>

record CacheKey =
  options_of :: "string list"

record ExecutableExecutionOptions =
  args :: "string list"

record ExecutionResult = BasicExecutionResult +
  didExecute :: bool
  buildResult :: CompilationResult

text \<open>Modelled from the spec: the enumeration \<^verbatim>\<open>BypassCache\<close> of
  \<^verbatim>\<open>types/compilation/compilation.interfaces.ts\<close>, which is not among the sources; the spec
  names the modes \<^verbatim>\<open>None\<close> and \<^verbatim>\<open>ForceBuild\<close>.
\<close>

datatype BypassCache = BypassCache_None | BypassCache_ForceBuild

text \<open>\<^verbatim>\<open>assert\<close> of \<^verbatim>\<open>lib/assert.ts\<close> throws when its condition is false.\<close>

datatype error = AssertionError

text \<open>
  The collaborators: the hash of the environment, the memoizer \<^verbatim>\<open>getOrBuildExecutable\<close> and
  the process spawner \<^verbatim>\<open>runExecutable\<close> of \<^verbatim>\<open>BaseCompiler\<close>, both with effects on the
  world, and the path of the Java runtime.
\<close>

record ('w, 'k, 'p, 'h) KotlinExecEnv =
  getExecutableHash :: "'k CacheKey_scheme \<Rightarrow> 'h"
  getOrBuildExecutable ::
    "'w \<Rightarrow> 'k CacheKey_scheme \<Rightarrow> BypassCache \<Rightarrow> 'h \<Rightarrow> CompilationResult \<times> 'w"
  runExecutable ::
    "'w \<Rightarrow> string \<Rightarrow> 'p ExecutableExecutionOptions_scheme \<Rightarrow> string
       \<Rightarrow> BasicExecutionResult \<times> 'w"
  javaRuntime :: string

definition alteredKey :: "'k CacheKey_scheme \<Rightarrow> 'k CacheKey_scheme" where
  "alteredKey key = key\<lparr>options_of := [''-include-runtime'', ''-d'', ''example.jar'']\<rparr>"

text \<open>The argument list assigned to \<^verbatim>\<open>executeParameters.args\<close>.\<close>

definition javaArguments :: "string \<Rightarrow> string list \<Rightarrow> string list" where
  "javaArguments dirPath' userArgs =
     [''-Xss136K'',
      ''-XX:CICompilerCount=2'',
      ''-XX:-UseDynamicNumberOfCompilerThreads'',
      ''-XX:-UseDynamicNumberOfGCThreads'',
      ''-XX:+UseSerialGC'',
      ''-cp'',
      dirPath',
      ''-jar'',
      ''example.jar''] @ userArgs"

text \<open>
  The method returns its result, or throws at the assertion. It assigns to the \<^verbatim>\<open>args\<close> of
  the caller's \<^verbatim>\<open>executeParameters\<close> object, so the parameters come back too, and so does
  the world.
\<close>

definition handleInterpreting ::
  "('w, 'k, 'p, 'h) KotlinExecEnv \<Rightarrow> 'w \<Rightarrow> 'k CacheKey_scheme
     \<Rightarrow> 'p ExecutableExecutionOptions_scheme
     \<Rightarrow> (error + ExecutionResult) \<times> 'p ExecutableExecutionOptions_scheme \<times> 'w" where
  "handleInterpreting E w key executeParameters =
     (let executablePackageHash = getExecutableHash E key;
          (compileResult, w1) =
             getOrBuildExecutable E w (alteredKey key) BypassCache_None executablePackageHash
      in case dirPath compileResult of
           None \<Rightarrow> (Inl AssertionError, executeParameters, w1)
         | Some dir \<Rightarrow>
             if code compileResult \<noteq> 0
             then (Inr \<lparr>code = code compileResult, timedOut = False,
                        stdout = stdout compileResult, stderr = stderr compileResult,
                        didExecute = False, buildResult = compileResult\<rparr>,
                   executeParameters, w1)
             else
               let executeParameters' =
                     executeParameters\<lparr>args := javaArguments dir (args executeParameters)\<rparr>;
                   (result, w2) = runExecutable E w1 (javaRuntime E) executeParameters' dir
               in (Inr \<lparr>code = code result, timedOut = timedOut result,
                         stdout = stdout result, stderr = stderr result,
                         didExecute = True, buildResult = compileResult\<rparr>,
                   executeParameters', w2))"

section \<open>Predicates of the specification\<close>

text \<open>
  The specification speaks of steps that succeeded. A step succeeded when the result lists a
  build step with that label and exit code 0; the first step is the head of the list.
\<close>

definition cToBinarySucceeded :: "CompilationResult \<Rightarrow> bool" where
  "cToBinarySucceeded r =
     list_ex (\<lambda>s. step_label s = ''C to binary'' \<and> code s = 0) (buildsteps r)"

definition sailToCSucceeded :: "CompilationResult \<Rightarrow> bool" where
  "sailToCSucceeded r =
     (case buildsteps r of [] \<Rightarrow> False | s # _ \<Rightarrow> step_label s = ''Sail to C'' \<and> code s = 0)"

text \<open>
  A runner ticks a clock of the world when each of its calls advances the clock by one; the
  clock then counts the processes run.
\<close>

definition ticking :: "('w \<Rightarrow> nat) \<Rightarrow> ('w, 'x) runner \<Rightarrow> bool" where
  "ticking clock ex =
     (\<forall>w command argv eo. clock (snd (ex w command argv eo)) = Suc (clock w))"

section \<open>Concrete collaborators for the examples\<close>

text \<open>
  A process runner that answers with the exit code \<open>c1\<close> to the Sail compiler, \<open>c2\<close> to the
  query \<^verbatim>\<open>-dir\<close> and \<open>c3\<close> to \<^verbatim>\<open>cc\<close>. The world is the number of processes run so far.
\<close>

definition scriptedRunner :: "int \<Rightarrow> int \<Rightarrow> int \<Rightarrow> (nat, unit) runner" where
  "scriptedRunner c1 c2 c3 w command argv execParams =
     (\<lparr>code = (if command = ''cc'' then c3 else if argv = [''-dir''] then c2 else c1),
       timedOut = False,
       stdout = (if argv = [''-dir''] then [\<lparr>text_of = '' /opt/sail ''\<rparr>] else []),
       stderr = []\<rparr>, Suc w)"

definition scriptedEnv :: "int \<Rightarrow> int \<Rightarrow> int \<Rightarrow> (nat, unit) SailEnv" where
  "scriptedEnv c1 c2 c3 =
     \<lparr>exec = scriptedRunner c1 c2 c3,
      getDefaultExecOptions = \<lparr>customCwd = None\<rparr>,
      path_dirname = (\<lambda>p. ''/tmp/build''),
      path_join = (\<lambda>a b. a @ ''/'' @ b)\<rparr>"

definition wantBinary :: "ParseFiltersAndOutputOptions option" where
  "wantBinary = Some \<lparr>binary = Some True\<rparr>"

definition noFilters :: "ParseFiltersAndOutputOptions option" where
  "noFilters = None"

definition scriptedRun ::
  "int \<Rightarrow> int \<Rightarrow> int \<Rightarrow> ParseFiltersAndOutputOptions option \<Rightarrow> CompilationResult \<times> nat" where
  "scriptedRun c1 c2 c3 filters =
     runCompiler (scriptedEnv c1 c2 c3) 0 ''sail'' [''x.sail''] ''/tmp/build/x.sail'' None filters"

text \<open>
  A memoizer that answers with a given build and a spawner that always succeeds. The world
  is the log of their calls: the options of the key the memoizer received, and the command
  line the spawner received.
\<close>

definition loggingExecEnv ::
  "(unit CacheKey_scheme \<Rightarrow> string list) \<Rightarrow> CompilationResult
     \<Rightarrow> (string list list, unit, unit, string list) KotlinExecEnv" where
  "loggingExecEnv hashOf build =
     \<lparr>getExecutableHash = hashOf,
      getOrBuildExecutable =
        (\<lambda>w key bypass hash. (build, w @ [''getOrBuildExecutable'' # options_of key])),
      runExecutable =
        (\<lambda>w runtime params dir.
           (\<lparr>code = 0, timedOut = False, stdout = [\<lparr>text_of = ''Hello''\<rparr>], stderr = []\<rparr>,
            w @ [runtime # args params])),
      javaRuntime = ''java''\<rparr>"

definition exampleBuild :: "int \<Rightarrow> string option \<Rightarrow> CompilationResult" where
  "exampleBuild c dir =
     \<lparr>code = c, timedOut = False, stdout = [\<lparr>text_of = ''kotlinc''\<rparr>],
      stderr = [\<lparr>text_of = ''warning''\<rparr>], buildsteps = [], inputFilename = Some ''example.kt'',
      executableFilename = None, dirPath = dir\<rparr>"

text \<open>
  A memoizer that also records the bypass mode and the hash it was given; the hash of a key
  is the list of the key's options.
\<close>

definition bypassName :: "BypassCache \<Rightarrow> string" where
  "bypassName bypass =
     (case bypass of BypassCache_None \<Rightarrow> ''BypassCache.None''
                   | BypassCache_ForceBuild \<Rightarrow> ''BypassCache.ForceBuild'')"

definition recordingExecEnv ::
  "CompilationResult \<Rightarrow> (string list list, unit, unit, string list) KotlinExecEnv" where
  "recordingExecEnv build =
     \<lparr>getExecutableHash = (\<lambda>key. options_of key),
      getOrBuildExecutable =
        (\<lambda>w key bypass hash.
           (build, w @ [[''getOrBuildExecutable'', bypassName bypass, ''key options:'']
                         @ options_of key @ [''hash of options:''] @ hash])),
      runExecutable =
        (\<lambda>w runtime params dir.
           (\<lparr>code = 0, timedOut = False, stdout = [\<lparr>text_of = ''Hello''\<rparr>], stderr = []\<rparr>,
            w @ [runtime # args params])),
      javaRuntime = ''java''\<rparr>"

text \<open>
  Collaborators of the Kotlin compiler invocation: a runner whose world is the log of the
  command lines it received, and a classpath of two arguments.
\<close>

definition loggingCompileEnv :: "(string list list, unit, unit, unit, unit) KotlinCompileEnv" where
  "loggingCompileEnv =
     \<lparr>kexec =
        (\<lambda>w command argv execParams.
           (\<lparr>code = 0, timedOut = False, stdout = [], stderr = []\<rparr>, w @ [command # argv])),
      kgetDefaultExecOptions = \<lparr>customCwd = None\<rparr>,
      kpath_dirname = (\<lambda>p. ''/tmp''),
      getClasspathArgument = [''-cp'', ''/opt/kotlin/lib''],
      transformToCompilationResult =
        (\<lambda>result file.
           \<lparr>code = code result, timedOut = timedOut result, stdout = stdout result,
            stderr = stderr result, buildsteps = [], inputFilename = Some file,
            executableFilename = None, dirPath = None\<rparr>),
      getCompilerResultLanguageId = (\<lambda>filters. ()),
      getInstructionSetFromCompilerArgs = (\<lambda>options. ())\<rparr>"

definition loggedCompile :: "string list \<Rightarrow> string \<Rightarrow> (unit, unit) KotlinCompilationResult \<times> string list list" where
  "loggedCompile options inputFile =
     kotlin_runCompiler loggingCompileEnv [] ''kotlinc'' options inputFile None noFilters"

definition otherJarKey :: CacheKey where
  "otherJarKey = \<lparr>options_of = [''-d'', ''other.jar'']\<rparr>"

definition plainKey :: CacheKey where
  "plainKey = \<lparr>options_of = []\<rparr>"

definition twoUserArgs :: ExecutableExecutionOptions where
  "twoUserArgs = \<lparr>args = [''alpha'', ''beta'']\<rparr>"

section \<open>The Sail pipeline\<close>

subsection \<open>What one build step does to the accumulator\<close>

lemma doBuildstep_facts:
  assumes "doBuildstepAndAddToResult ex w res name cmd argv eo = (s, res', w')"
  shows "buildsteps res' = buildsteps res @ [s]"
    and "step_label s = name"
    and "code res' = (if code s \<noteq> 0 then code s else code res)"
    and "executableFilename res' = executableFilename res"
  using assms
  by (auto simp add: doBuildstepAndAddToResult_def Let_def split: prod.splits)

lemma doBuildstep_world:
  assumes "doBuildstepAndAddToResult ex w res name cmd argv eo = (s, res', w')"
  shows "w' = snd (ex w cmd argv eo)"
  using assms
  by (auto simp add: doBuildstepAndAddToResult_def Let_def split: prod.splits)

subsection \<open>The body of \<^verbatim>\<open>runCompiler\<close>\<close>

text \<open>
  After the execution options and the empty accumulator are prepared, the run is three build
  steps with two tests between them.
\<close>

lemma runCompiler_unfold:
  fixes E :: "('w, 'x) SailEnv"
  shows "\<exists>eo2 r0. buildsteps r0 = [] \<and> code r0 = 0 \<and> executableFilename r0 = None \<and>
     runCompiler E w compiler options inputFile eo filters =
     (let (sailResult, fullResult1, w1) =
             doBuildstepAndAddToResult (exec E) w r0 ''Sail to C'' compiler
               (options @ [''-o'', outputFilebase]) eo2
      in if code sailResult \<noteq> 0 \<or> \<not> binaryIsTrue filters then (fullResult1, w1)
         else
           let fullResult2 = fullResult1\<lparr>executableFilename := Some (inputFile @ ''.exe'')\<rparr>;
               (sailDirResult, fullResult3, w2) =
                  doBuildstepAndAddToResult (exec E) w1 fullResult2 ''Get Sail dir'' compiler
                    [''-dir''] eo2
           in if code sailDirResult \<noteq> 0 then (fullResult3, w2)
              else
                let sailDir = trim (joinWith [CHR 0x0A] (map text_of (stdout sailDirResult)));
                    (ccResult, fullResult4, w3) =
                       doBuildstepAndAddToResult (exec E) w2 fullResult3 ''C to binary'' ''cc''
                         (ccArguments sailDir) eo2
                in (fullResult4, w3))"
proof -
  define eo1 where "eo1 = (case eo of None \<Rightarrow> getDefaultExecOptions E | Some e \<Rightarrow> e)"
  define eo2 where "eo2 = (if falsyString (customCwd eo1)
                           then eo1\<lparr>customCwd := Some (path_dirname E inputFile)\<rparr> else eo1)"
  define r0 :: CompilationResult
    where "r0 = \<lparr>code = 0, timedOut = False, stdout = [], stderr = [],
                 buildsteps = [], inputFilename = Some inputFile,
                 executableFilename = None, dirPath = None\<rparr>"
  have r0s: "buildsteps r0 = []" "code r0 = 0" "executableFilename r0 = None"
    by (simp_all add: r0_def)
  have "runCompiler E w compiler options inputFile eo filters =
     (let (sailResult, fullResult1, w1) =
             doBuildstepAndAddToResult (exec E) w r0 ''Sail to C'' compiler
               (options @ [''-o'', outputFilebase]) eo2
      in if code sailResult \<noteq> 0 \<or> \<not> binaryIsTrue filters then (fullResult1, w1)
         else
           let fullResult2 = fullResult1\<lparr>executableFilename := Some (inputFile @ ''.exe'')\<rparr>;
               (sailDirResult, fullResult3, w2) =
                  doBuildstepAndAddToResult (exec E) w1 fullResult2 ''Get Sail dir'' compiler
                    [''-dir''] eo2
           in if code sailDirResult \<noteq> 0 then (fullResult3, w2)
              else
                let sailDir = trim (joinWith [CHR 0x0A] (map text_of (stdout sailDirResult)));
                    (ccResult, fullResult4, w3) =
                       doBuildstepAndAddToResult (exec E) w2 fullResult3 ''C to binary'' ''cc''
                         (ccArguments sailDir) eo2
                in (fullResult4, w3))"
    by (simp only: runCompiler_def eo1_def eo2_def r0_def Let_def)
  with r0s show ?thesis by blast
qed

subsection \<open>The three ways a run can end\<close>

text \<open>
  A run ends after the first step (it failed, or no binary was asked for), after the second
  (the query for the Sail directory failed), or after the third. In each case the build steps,
  the overall exit code and \<^verbatim>\<open>executableFilename\<close> are known.
\<close>

lemma runCompiler_shape:
  fixes E :: "('w, 'x) SailEnv"
  assumes r: "r = fst (runCompiler E w compiler options inputFile eo filters)"
  obtains
    (stop1) s1 where "buildsteps r = [s1]" "step_label s1 = ''Sail to C''"
      "code s1 \<noteq> 0 \<or> \<not> binaryIsTrue filters" "code r = code s1"
      "executableFilename r = None"
  | (stop2) s1 s2 where "buildsteps r = [s1, s2]" "step_label s1 = ''Sail to C''"
      "step_label s2 = ''Get Sail dir''" "code s1 = 0" "binaryIsTrue filters"
      "code s2 \<noteq> 0" "code r = code s2"
      "executableFilename r = Some (inputFile @ ''.exe'')"
  | (all3) s1 s2 s3 where "buildsteps r = [s1, s2, s3]" "step_label s1 = ''Sail to C''"
      "step_label s2 = ''Get Sail dir''" "step_label s3 = ''C to binary''"
      "code s1 = 0" "binaryIsTrue filters" "code s2 = 0" "code r = code s3"
      "executableFilename r = Some (inputFile @ ''.exe'')"
proof -
  obtain eo2 r0 where r0s: "buildsteps r0 = []" "code r0 = 0" "executableFilename r0 = None"
    and unfolded: "runCompiler E w compiler options inputFile eo filters =
     (let (sailResult, fullResult1, w1) =
             doBuildstepAndAddToResult (exec E) w r0 ''Sail to C'' compiler
               (options @ [''-o'', outputFilebase]) eo2
      in if code sailResult \<noteq> 0 \<or> \<not> binaryIsTrue filters then (fullResult1, w1)
         else
           let fullResult2 = fullResult1\<lparr>executableFilename := Some (inputFile @ ''.exe'')\<rparr>;
               (sailDirResult, fullResult3, w2) =
                  doBuildstepAndAddToResult (exec E) w1 fullResult2 ''Get Sail dir'' compiler
                    [''-dir''] eo2
           in if code sailDirResult \<noteq> 0 then (fullResult3, w2)
              else
                let sailDir = trim (joinWith [CHR 0x0A] (map text_of (stdout sailDirResult)));
                    (ccResult, fullResult4, w3) =
                       doBuildstepAndAddToResult (exec E) w2 fullResult3 ''C to binary'' ''cc''
                         (ccArguments sailDir) eo2
                in (fullResult4, w3))"
    using runCompiler_unfold [of E w compiler options inputFile eo filters] by blast
  obtain s1 r1 w1 where st1:
    "doBuildstepAndAddToResult (exec E) w r0 ''Sail to C'' compiler
       (options @ [''-o'', outputFilebase]) eo2 = (s1, r1, w1)"
    by (metis prod_cases3)
  note f1 = doBuildstep_facts [OF st1]
  show thesis
  proof (cases "code s1 \<noteq> 0 \<or> \<not> binaryIsTrue filters")
    case True
    then have "r = r1"
      using r st1 by (simp add: unfolded)
    with True f1 r0s show thesis
      by (intro stop1 [of s1]) auto
  next
    case first_ok: False
    define r2 where "r2 = r1\<lparr>executableFilename := Some (inputFile @ ''.exe'')\<rparr>"
    have r2s: "buildsteps r2 = [s1]" "code r2 = 0"
      "executableFilename r2 = Some (inputFile @ ''.exe'')"
      using f1 r0s first_ok by (simp_all add: r2_def)
    obtain s2 r3 w2 where st2:
      "doBuildstepAndAddToResult (exec E) w1 r2 ''Get Sail dir'' compiler [''-dir''] eo2
         = (s2, r3, w2)"
      by (metis prod_cases3)
    note f2 = doBuildstep_facts [OF st2]
    show thesis
    proof (cases "code s2 \<noteq> 0")
      case True
      then have "r = r3"
        using r st1 st2 first_ok by (simp add: unfolded r2_def)
      with True first_ok f1 f2 r2s show thesis
        by (intro stop2 [of s1 s2]) auto
    next
      case second_ok: False
      obtain s3 r4 w3 where st3:
        "doBuildstepAndAddToResult (exec E) w2 r3 ''C to binary'' ''cc''
           (ccArguments (trim (joinWith [CHR 0x0A] (map text_of (stdout s2))))) eo2
           = (s3, r4, w3)"
        by (metis prod_cases3)
      note f3 = doBuildstep_facts [OF st3]
      have "r = r4"
        using r st1 st2 st3 first_ok second_ok by (simp add: unfolded r2_def)
      with second_ok first_ok f1 f2 f3 r2s show thesis
        by (intro all3 [of s1 s2 s3]) auto
    qed
  qed
qed

subsection \<open>Build steps and processes\<close>

text \<open>
  The list of build steps is the record of the processes that ran: when every call of the
  runner advances a clock of the world by one, the clock advances during a run by the number
  of build steps in its result.
\<close>

lemma runner_calls_eq_buildsteps:
  fixes E :: "('w, 'x) SailEnv"
  assumes tick: "ticking clock (exec E)"
  shows "clock (snd (runCompiler E w compiler options inputFile eo filters)) =
           clock w + length (buildsteps (fst (runCompiler E w compiler options inputFile eo filters)))"
proof -
  obtain eo2 r0 where r0s: "buildsteps r0 = []"
    and unfolded: "runCompiler E w compiler options inputFile eo filters =
     (let (sailResult, fullResult1, w1) =
             doBuildstepAndAddToResult (exec E) w r0 ''Sail to C'' compiler
               (options @ [''-o'', outputFilebase]) eo2
      in if code sailResult \<noteq> 0 \<or> \<not> binaryIsTrue filters then (fullResult1, w1)
         else
           let fullResult2 = fullResult1\<lparr>executableFilename := Some (inputFile @ ''.exe'')\<rparr>;
               (sailDirResult, fullResult3, w2) =
                  doBuildstepAndAddToResult (exec E) w1 fullResult2 ''Get Sail dir'' compiler
                    [''-dir''] eo2
           in if code sailDirResult \<noteq> 0 then (fullResult3, w2)
              else
                let sailDir = trim (joinWith [CHR 0x0A] (map text_of (stdout sailDirResult)));
                    (ccResult, fullResult4, w3) =
                       doBuildstepAndAddToResult (exec E) w2 fullResult3 ''C to binary'' ''cc''
                         (ccArguments sailDir) eo2
                in (fullResult4, w3))"
    using runCompiler_unfold [of E w compiler options inputFile eo filters] by blast
  have step: "clock w' = Suc (clock v) \<and> length (buildsteps res') = Suc (length (buildsteps res))"
    if "doBuildstepAndAddToResult (exec E) v res name cmd argv eo2 = (s, res', w')"
    for v res name cmd argv s res' w'
    using doBuildstep_world [OF that] doBuildstep_facts(1) [OF that] tick
    by (simp add: ticking_def)
  obtain s1 r1 w1 where st1:
    "doBuildstepAndAddToResult (exec E) w r0 ''Sail to C'' compiler
       (options @ [''-o'', outputFilebase]) eo2 = (s1, r1, w1)"
    by (metis prod_cases3)
  define r2 where "r2 = r1\<lparr>executableFilename := Some (inputFile @ ''.exe'')\<rparr>"
  obtain s2 r3 w2 where st2:
    "doBuildstepAndAddToResult (exec E) w1 r2 ''Get Sail dir'' compiler [''-dir''] eo2
       = (s2, r3, w2)"
    by (metis prod_cases3)
  obtain s3 r4 w3 where st3:
    "doBuildstepAndAddToResult (exec E) w2 r3 ''C to binary'' ''cc''
       (ccArguments (trim (joinWith [CHR 0x0A] (map text_of (stdout s2))))) eo2 = (s3, r4, w3)"
    by (metis prod_cases3)
  have "length (buildsteps r2) = length (buildsteps r1)"
    by (simp add: r2_def)
  with step [OF st1] step [OF st2] step [OF st3] r0s show ?thesis
    by (simp add: unfolded st1 st2 st3 r2_def [symmetric] Let_def)
qed

subsection \<open>Three concrete runs\<close>

lemmas scripted_defs = scriptedRun_def runCompiler_def doBuildstepAndAddToResult_def
  scriptedEnv_def scriptedRunner_def Let_def falsyString_def outputFilebase_def wantBinary_def
  noFilters_def binaryIsTrue_def ccArguments_def

text \<open>Binary requested, the query for the Sail directory exits with 1: two processes ran.\<close>

lemma scripted_dir_fails:
  "scriptedRun 0 1 0 wantBinary =
    (\<lparr>code = 1, timedOut = False, stdout = [\<lparr>text_of = '' /opt/sail ''\<rparr>], stderr = [],
      buildsteps =
        [\<lparr>code = 0, timedOut = False, stdout = [], stderr = [], step_label = ''Sail to C''\<rparr>,
         \<lparr>code = 1, timedOut = False, stdout = [\<lparr>text_of = '' /opt/sail ''\<rparr>],
           stderr = [], step_label = ''Get Sail dir''\<rparr>],
      inputFilename = Some ''/tmp/build/x.sail'',
      executableFilename = Some ''/tmp/build/x.sail.exe'', dirPath = None\<rparr>, 2)"
  by (simp add: scripted_defs)

text \<open>Binary requested, every step exits with 0: three processes ran.\<close>

lemma scripted_all_ok:
  "scriptedRun 0 0 0 wantBinary =
    (\<lparr>code = 0, timedOut = False, stdout = [\<lparr>text_of = '' /opt/sail ''\<rparr>], stderr = [],
      buildsteps =
        [\<lparr>code = 0, timedOut = False, stdout = [], stderr = [], step_label = ''Sail to C''\<rparr>,
         \<lparr>code = 0, timedOut = False, stdout = [\<lparr>text_of = '' /opt/sail ''\<rparr>],
           stderr = [], step_label = ''Get Sail dir''\<rparr>,
         \<lparr>code = 0, timedOut = False, stdout = [], stderr = [], step_label = ''C to binary''\<rparr>],
      inputFilename = Some ''/tmp/build/x.sail'',
      executableFilename = Some ''/tmp/build/x.sail.exe'', dirPath = None\<rparr>, 3)"
  by (simp add: scripted_defs)

text \<open>No filters at all, the first step exits with 0: one process ran.\<close>

lemma scripted_no_binary:
  "scriptedRun 0 0 0 noFilters =
    (\<lparr>code = 0, timedOut = False, stdout = [], stderr = [],
      buildsteps =
        [\<lparr>code = 0, timedOut = False, stdout = [], stderr = [], step_label = ''Sail to C''\<rparr>],
      inputFilename = Some ''/tmp/build/x.sail'', executableFilename = None,
      dirPath = None\<rparr>, 1)"
  by (simp add: scripted_defs)

subsection \<open>Claim C1: when \<^verbatim>\<open>executableFilename\<close> is set\<close>

text \<open>
  Claim C1 as it is written says that \<^verbatim>\<open>executableFilename\<close> is set if and only if the step
  \<^verbatim>\<open>C to binary\<close> succeeded and binary output was requested. The code assigns the field right
  after the first step, before the other two run. In the run where the query for the Sail
  directory fails, the field is set although \<^verbatim>\<open>C to binary\<close> never ran: the equivalence of
  the claim is false there.
\<close>

theorem C1_executableFilename_set_although_cc_never_ran:
  "\<not> (executableFilename (fst (scriptedRun 0 1 0 wantBinary)) \<noteq> None
        \<longleftrightarrow> cToBinarySucceeded (fst (scriptedRun 0 1 0 wantBinary)) \<and> binaryIsTrue wantBinary)"
  by (simp add: scripted_dir_fails cToBinarySucceeded_def)

text \<open>
  Claim C1, amended: \<^verbatim>\<open>executableFilename\<close> is set, to the input file name followed by
  \<^verbatim>\<open>.exe\<close>, if and only if the first step \<^verbatim>\<open>Sail to C\<close> exited with code 0 and binary output
  was requested by the filters. So it is set whenever \<^verbatim>\<open>C to binary\<close> succeeded, and it is
  never set when binary output was not requested; it stays set when a later step fails.
\<close>

theorem C1_executableFilename_iff_first_step_and_binary:
  fixes E :: "('w, 'x) SailEnv"
  assumes "r = fst (runCompiler E w compiler options inputFile eo filters)"
  shows "executableFilename r =
           (if sailToCSucceeded r \<and> binaryIsTrue filters
            then Some (inputFile @ ''.exe'') else None)
         \<and> (cToBinarySucceeded r \<longrightarrow> executableFilename r \<noteq> None)
         \<and> (\<not> binaryIsTrue filters \<longrightarrow> executableFilename r = None)"
  using assms
  by (cases rule: runCompiler_shape [of r E w compiler options inputFile eo filters])
     (auto simp add: sailToCSucceeded_def cToBinarySucceeded_def)

text \<open>
  Witness for C1: the run in which all three steps succeed sets the field, and the run
  without filters leaves it unset.
\<close>

theorem C1_executableFilename_witness:
  "cToBinarySucceeded (fst (scriptedRun 0 0 0 wantBinary))
   \<and> sailToCSucceeded (fst (scriptedRun 0 0 0 wantBinary))
   \<and> binaryIsTrue wantBinary
   \<and> executableFilename (fst (scriptedRun 0 0 0 wantBinary)) = Some ''/tmp/build/x.sail.exe''
   \<and> \<not> binaryIsTrue noFilters
   \<and> executableFilename (fst (scriptedRun 0 0 0 noFilters)) = None"
proof -
  have asked: "binaryIsTrue wantBinary" and not_asked: "\<not> binaryIsTrue noFilters"
    by (simp_all add: wantBinary_def noFilters_def binaryIsTrue_def)
  have steps: "cToBinarySucceeded (fst (scriptedRun 0 0 0 wantBinary))"
    "sailToCSucceeded (fst (scriptedRun 0 0 0 wantBinary))"
    by (simp_all add: scripted_all_ok cToBinarySucceeded_def sailToCSucceeded_def)
  have run1: "fst (scriptedRun 0 0 0 wantBinary) =
      fst (runCompiler (scriptedEnv 0 0 0) 0 ''sail'' [''x.sail''] ''/tmp/build/x.sail'' None
             wantBinary)"
    by (simp only: scriptedRun_def)
  have run2: "fst (scriptedRun 0 0 0 noFilters) =
      fst (runCompiler (scriptedEnv 0 0 0) 0 ''sail'' [''x.sail''] ''/tmp/build/x.sail'' None
             noFilters)"
    by (simp only: scriptedRun_def)
  have "executableFilename (fst (scriptedRun 0 0 0 wantBinary)) = Some ''/tmp/build/x.sail.exe''"
    using C1_executableFilename_iff_first_step_and_binary [OF run1] steps asked by simp
  moreover have "executableFilename (fst (scriptedRun 0 0 0 noFilters)) = None"
    using C1_executableFilename_iff_first_step_and_binary [OF run2] not_asked by simp
  ultimately show ?thesis
    using asked not_asked steps by simp
qed

subsection \<open>Claim C2: a failing step is the last one\<close>

text \<open>
  Claim C2: if the step at position \<open>i\<close> of a run exited with a non-zero code, then the build
  steps of the result are exactly the steps up to and including that one (no later step was
  run: the build steps are the processes that ran, see \<open>runner_calls_eq_buildsteps\<close>), and
  the overall exit code is that step's code, hence non-zero.
\<close>

theorem C2_failing_step_stops_the_pipeline:
  fixes E :: "('w, 'x) SailEnv"
  assumes "r = fst (runCompiler E w compiler options inputFile eo filters)"
    and "i < length (buildsteps r)"
    and "code (buildsteps r ! i) \<noteq> 0"
  shows "length (buildsteps r) = Suc i
         \<and> map step_label (buildsteps r) =
             take (Suc i) [''Sail to C'', ''Get Sail dir'', ''C to binary'']
         \<and> code r = code (buildsteps r ! i)
         \<and> code r \<noteq> 0"
  using assms
  by (cases rule: runCompiler_shape [of r E w compiler options inputFile eo filters])
     (auto simp add: nth_Cons less_Suc_eq split: nat.splits)

text \<open>
  Witness for C2: the second step fails with code 1; the result has two build steps, the
  overall code is 1, and the runner was called twice.
\<close>

theorem C2_failing_step_witness:
  "1 < length (buildsteps (fst (scriptedRun 0 1 0 wantBinary)))
   \<and> code (buildsteps (fst (scriptedRun 0 1 0 wantBinary)) ! 1) \<noteq> 0
   \<and> length (buildsteps (fst (scriptedRun 0 1 0 wantBinary))) = 2
   \<and> map step_label (buildsteps (fst (scriptedRun 0 1 0 wantBinary)))
       = [''Sail to C'', ''Get Sail dir'']
   \<and> code (fst (scriptedRun 0 1 0 wantBinary)) = 1
   \<and> snd (scriptedRun 0 1 0 wantBinary) = 2"
proof -
  have run: "fst (scriptedRun 0 1 0 wantBinary) =
      fst (runCompiler (scriptedEnv 0 1 0) 0 ''sail'' [''x.sail''] ''/tmp/build/x.sail'' None
             wantBinary)"
    by (simp only: scriptedRun_def)
  have second: "1 < length (buildsteps (fst (scriptedRun 0 1 0 wantBinary)))"
    and failed: "code (buildsteps (fst (scriptedRun 0 1 0 wantBinary)) ! 1) \<noteq> 0"
    and calls: "snd (scriptedRun 0 1 0 wantBinary) = 2"
    by (simp_all add: scripted_dir_fails)
  have code1: "code (buildsteps (fst (scriptedRun 0 1 0 wantBinary)) ! 1) = 1"
    by (simp add: scripted_dir_fails)
  show ?thesis
    using C2_failing_step_stops_the_pipeline [OF run second failed] second failed calls code1
    by simp
qed

subsection \<open>Claim C6: no binary requested\<close>

text \<open>
  Claim C6: when the first step \<^verbatim>\<open>Sail to C\<close> exits with code 0 and binary output is not
  requested, the run stops there: the result has exactly one build step, the overall exit
  code is 0 and \<^verbatim>\<open>executableFilename\<close> is not set.
\<close>

theorem C6_source_only_run_stops_after_first_step:
  fixes E :: "('w, 'x) SailEnv"
  assumes "r = fst (runCompiler E w compiler options inputFile eo filters)"
    and "code (buildsteps r ! 0) = 0"
    and "\<not> binaryIsTrue filters"
  shows "length (buildsteps r) = 1
         \<and> map step_label (buildsteps r) = [''Sail to C'']
         \<and> code r = 0
         \<and> executableFilename r = None"
  using assms
  by (cases rule: runCompiler_shape [of r E w compiler options inputFile eo filters]) auto

text \<open>Witness for C6: the run without filters, where the runner was called once.\<close>

theorem C6_source_only_run_witness:
  "code (buildsteps (fst (scriptedRun 0 0 0 noFilters)) ! 0) = 0
   \<and> \<not> binaryIsTrue noFilters
   \<and> length (buildsteps (fst (scriptedRun 0 0 0 noFilters))) = 1
   \<and> code (fst (scriptedRun 0 0 0 noFilters)) = 0
   \<and> executableFilename (fst (scriptedRun 0 0 0 noFilters)) = None
   \<and> snd (scriptedRun 0 0 0 noFilters) = 1"
proof -
  have run: "fst (scriptedRun 0 0 0 noFilters) =
      fst (runCompiler (scriptedEnv 0 0 0) 0 ''sail'' [''x.sail''] ''/tmp/build/x.sail'' None
             noFilters)"
    by (simp only: scriptedRun_def)
  have first_ok: "code (buildsteps (fst (scriptedRun 0 0 0 noFilters)) ! 0) = 0"
    and calls: "snd (scriptedRun 0 0 0 noFilters) = 1"
    by (simp_all add: scripted_no_binary)
  have not_asked: "\<not> binaryIsTrue noFilters"
    by (simp add: noFilters_def binaryIsTrue_def)
  show ?thesis
    using C6_source_only_run_stops_after_first_step [OF run first_ok not_asked]
      first_ok calls not_asked
    by simp
qed

subsection \<open>Claims C7 and C8: the path resolvers and the library arguments\<close>

text \<open>
  Claim C7: \<^verbatim>\<open>getOutputFilename\<close> and \<^verbatim>\<open>getExecutableFilename\<close> return the directory joined
  with the base name followed by \<^verbatim>\<open>.c\<close> and \<^verbatim>\<open>.exe\<close>. The result is a function of the
  directory and the base name alone: it does not depend on the key, and neither on the
  process runner nor on the default execution options of the compiler, and the functions
  take and return no state of the world.
\<close>

theorem C7_output_paths_are_pure:
  fixes E :: "('w, 'x) SailEnv"
  shows "getOutputFilename E dir base key = path_join E dir (base @ ''.c'')
       \<and> getExecutableFilename E dir base key' = path_join E dir (base @ ''.exe'')
       \<and> getOutputFilename (E\<lparr>exec := ex, getDefaultExecOptions := deo\<rparr>) dir base key2
           = getOutputFilename E dir base key
       \<and> getExecutableFilename (E\<lparr>exec := ex, getDefaultExecOptions := deo\<rparr>) dir base key2'
           = getExecutableFilename E dir base key'"
  by (simp add: getOutputFilename_def getExecutableFilename_def)

text \<open>
  Claim C8: \<^verbatim>\<open>getSharedLibraryPathsAsArguments\<close> returns the empty argument list for every
  list of libraries, every download path, every toolchain path and every directory.
\<close>

theorem C8_no_shared_library_arguments:
  "getSharedLibraryPathsAsArguments libraries libDownloadPath toolchainPath dir = []"
  by (simp add: getSharedLibraryPathsAsArguments_def)

section \<open>The Kotlin execution adapter\<close>

lemmas logging_defs = handleInterpreting_def loggingExecEnv_def exampleBuild_def alteredKey_def
  javaArguments_def otherJarKey_def plainKey_def twoUserArgs_def Let_def

subsection \<open>Three concrete executions\<close>

text \<open>A failed build without a directory: the assertion throws, after one call of the memoizer.\<close>

lemma logged_failed_build_without_dir:
  "handleInterpreting (loggingExecEnv options_of (exampleBuild 1 None)) [] otherJarKey twoUserArgs =
     (Inl AssertionError, twoUserArgs,
      [[''getOrBuildExecutable'', ''-include-runtime'', ''-d'', ''example.jar'']])"
  by (simp add: logging_defs)

text \<open>A failed build with a directory: the build's output comes back, nothing is spawned.\<close>

lemma logged_failed_build:
  "handleInterpreting (loggingExecEnv options_of (exampleBuild 1 (Some ''/tmp/k''))) []
       otherJarKey twoUserArgs =
     (Inr \<lparr>code = 1, timedOut = False, stdout = [\<lparr>text_of = ''kotlinc''\<rparr>],
           stderr = [\<lparr>text_of = ''warning''\<rparr>], didExecute = False,
           buildResult = exampleBuild 1 (Some ''/tmp/k'')\<rparr>,
      twoUserArgs,
      [[''getOrBuildExecutable'', ''-include-runtime'', ''-d'', ''example.jar'']])"
  by (simp add: logging_defs)

text \<open>A successful build: the Java runtime is spawned with the arguments in the log.\<close>

lemma logged_successful_build:
  "handleInterpreting (loggingExecEnv options_of (exampleBuild 0 (Some ''/tmp/k''))) []
       otherJarKey twoUserArgs =
     (Inr \<lparr>code = 0, timedOut = False, stdout = [\<lparr>text_of = ''Hello''\<rparr>], stderr = [],
           didExecute = True, buildResult = exampleBuild 0 (Some ''/tmp/k'')\<rparr>,
      \<lparr>args = [''-Xss136K'', ''-XX:CICompilerCount=2'',
               ''-XX:-UseDynamicNumberOfCompilerThreads'', ''-XX:-UseDynamicNumberOfGCThreads'',
               ''-XX:+UseSerialGC'', ''-cp'', ''/tmp/k'', ''-jar'', ''example.jar'',
               ''alpha'', ''beta'']\<rparr>,
      [[''getOrBuildExecutable'', ''-include-runtime'', ''-d'', ''example.jar''],
       [''java'', ''-Xss136K'', ''-XX:CICompilerCount=2'',
        ''-XX:-UseDynamicNumberOfCompilerThreads'', ''-XX:-UseDynamicNumberOfGCThreads'',
        ''-XX:+UseSerialGC'', ''-cp'', ''/tmp/k'', ''-jar'', ''example.jar'',
        ''alpha'', ''beta'']])"
  by (simp add: logging_defs)

subsection \<open>Claim C3: a failed build is never executed\<close>

text \<open>
  Claim C3: for every build that the memoizer returns with a non-zero exit code, the method
  returns a result with \<^verbatim>\<open>didExecute\<close> false that carries the build's stdout, stderr and exit
  code, and \<^verbatim>\<open>runExecutable\<close> is not called: the outcome is the same whatever the spawner
  is, and the world is left as the memoizer left it. A build has the directory that holds
  its artifact; the code asserts so before it looks at the exit code.
\<close>

theorem C3_failed_build_is_not_executed:
  fixes E :: "('w, 'k, 'p, 'h) KotlinExecEnv"
  assumes "getOrBuildExecutable E w (alteredKey key) BypassCache_None (getExecutableHash E key)
             = (build, w')"
    and "code build \<noteq> 0"
    and "dirPath build = Some dir"
  shows "handleInterpreting E w key params =
           (Inr \<lparr>code = code build, timedOut = False, stdout = stdout build,
                 stderr = stderr build, didExecute = False, buildResult = build\<rparr>,
            params, w')
       \<and> handleInterpreting (E\<lparr>runExecutable := spawn\<rparr>) w key params =
            handleInterpreting E w key params"
  using assms by (simp add: handleInterpreting_def Let_def)

text \<open>
  Witness for C3: a failed build in the directory \<^verbatim>\<open>/tmp/k\<close>; the log holds the call of the
  memoizer and no call of the spawner.
\<close>

theorem C3_failed_build_witness:
  "code (exampleBuild 1 (Some ''/tmp/k'')) \<noteq> 0
   \<and> dirPath (exampleBuild 1 (Some ''/tmp/k'')) = Some ''/tmp/k''
   \<and> handleInterpreting (loggingExecEnv options_of (exampleBuild 1 (Some ''/tmp/k''))) []
        otherJarKey twoUserArgs =
      (Inr \<lparr>code = 1, timedOut = False, stdout = [\<lparr>text_of = ''kotlinc''\<rparr>],
            stderr = [\<lparr>text_of = ''warning''\<rparr>], didExecute = False,
            buildResult = exampleBuild 1 (Some ''/tmp/k'')\<rparr>,
       twoUserArgs,
       [[''getOrBuildExecutable'', ''-include-runtime'', ''-d'', ''example.jar'']])"
proof -
  let ?build = "exampleBuild 1 (Some ''/tmp/k'')"
  let ?E = "loggingExecEnv options_of ?build"
  have memo: "getOrBuildExecutable ?E [] (alteredKey otherJarKey) BypassCache_None
                (getExecutableHash ?E otherJarKey)
              = (?build, [[''getOrBuildExecutable'', ''-include-runtime'', ''-d'', ''example.jar'']])"
    by (simp add: loggingExecEnv_def alteredKey_def otherJarKey_def)
  have failed: "code ?build \<noteq> 0" and dir: "dirPath ?build = Some ''/tmp/k''"
    and fields: "code ?build = 1" "stdout ?build = [\<lparr>text_of = ''kotlinc''\<rparr>]"
      "stderr ?build = [\<lparr>text_of = ''warning''\<rparr>]"
    by (simp_all add: exampleBuild_def)
  show ?thesis
    using C3_failed_build_is_not_executed [OF memo failed dir, of twoUserArgs] failed dir fields
    by simp
qed

subsection \<open>Claim C4: the order of the runtime's arguments\<close>

text \<open>
  Claim C4: when the build succeeded, the Java runtime is spawned with the tuning arguments
  (thread stack size, compiler-thread count, garbage-collector mode) first, then the classpath,
  then \<^verbatim>\<open>-jar example.jar\<close>, and the user's program arguments right after those, in their
  order. The same list is left in the caller's execution parameters.
\<close>

theorem C4_runtime_arguments_precede_user_arguments:
  fixes E :: "('w, 'k, 'p, 'h) KotlinExecEnv"
  assumes "getOrBuildExecutable E w (alteredKey key) BypassCache_None (getExecutableHash E key)
             = (build, w')"
    and "code build = 0"
    and "dirPath build = Some dir"
    and "params' = params\<lparr>args :=
            [''-Xss136K'', ''-XX:CICompilerCount=2'', ''-XX:-UseDynamicNumberOfCompilerThreads'',
             ''-XX:-UseDynamicNumberOfGCThreads'', ''-XX:+UseSerialGC'', ''-cp'', dir]
            @ [''-jar'', ''example.jar''] @ args params\<rparr>"
    and "spawned = runExecutable E w' (javaRuntime E) params' dir"
  shows "handleInterpreting E w key params =
           (Inr \<lparr>code = code (fst spawned), timedOut = timedOut (fst spawned),
                 stdout = stdout (fst spawned), stderr = stderr (fst spawned),
                 didExecute = True, buildResult = build\<rparr>,
            params', snd spawned)"
  using assms
  by (simp add: handleInterpreting_def javaArguments_def Let_def split: prod.splits)

text \<open>
  Witness for C4: two user arguments \<^verbatim>\<open>alpha\<close> and \<^verbatim>\<open>beta\<close>; the spawner's log entry ends
  with \<^verbatim>\<open>-jar example.jar alpha beta\<close>.
\<close>

theorem C4_runtime_arguments_witness:
  "code (exampleBuild 0 (Some ''/tmp/k'')) = 0
   \<and> dirPath (exampleBuild 0 (Some ''/tmp/k'')) = Some ''/tmp/k''
   \<and> snd (snd (handleInterpreting (loggingExecEnv options_of (exampleBuild 0 (Some ''/tmp/k'')))
        [] otherJarKey twoUserArgs)) =
       [[''getOrBuildExecutable'', ''-include-runtime'', ''-d'', ''example.jar''],
        [''java'', ''-Xss136K'', ''-XX:CICompilerCount=2'',
         ''-XX:-UseDynamicNumberOfCompilerThreads'', ''-XX:-UseDynamicNumberOfGCThreads'',
         ''-XX:+UseSerialGC'', ''-cp'', ''/tmp/k'', ''-jar'', ''example.jar'',
         ''alpha'', ''beta'']]"
proof -
  let ?build = "exampleBuild 0 (Some ''/tmp/k'')"
  let ?E = "loggingExecEnv options_of ?build"
  let ?log = "[[''getOrBuildExecutable'', ''-include-runtime'', ''-d'', ''example.jar'']]"
  have memo: "getOrBuildExecutable ?E [] (alteredKey otherJarKey) BypassCache_None
                (getExecutableHash ?E otherJarKey) = (?build, ?log)"
    by (simp add: loggingExecEnv_def alteredKey_def otherJarKey_def)
  have ok: "code ?build = 0" and dir: "dirPath ?build = Some ''/tmp/k''"
    by (simp_all add: exampleBuild_def)
  have "snd (snd (handleInterpreting ?E [] otherJarKey twoUserArgs)) =
          snd (runExecutable ?E ?log (javaRuntime ?E)
                 (twoUserArgs\<lparr>args :=
                    [''-Xss136K'', ''-XX:CICompilerCount=2'',
                     ''-XX:-UseDynamicNumberOfCompilerThreads'',
                     ''-XX:-UseDynamicNumberOfGCThreads'', ''-XX:+UseSerialGC'', ''-cp'',
                     ''/tmp/k''] @ [''-jar'', ''example.jar''] @ args twoUserArgs\<rparr>)
                 ''/tmp/k'')"
    using C4_runtime_arguments_precede_user_arguments [OF memo ok dir refl refl] by simp
  then show ?thesis
    using ok dir by (simp add: loggingExecEnv_def twoUserArgs_def)
qed

subsection \<open>Claim C5: the key given to the memoizer\<close>

text \<open>
  Claim C5 says that the key given to the memoizer encodes the packaging options the caller
  requested, and that these do not fall back to defaults. The comment of the method says that
  the flags \<^verbatim>\<open>-include-runtime\<close> and \<^verbatim>\<open>-d\<close> are appended. The code replaces the options of
  the key by the three flags instead. At a key that asks for \<^verbatim>\<open>-d other.jar\<close> the memoizer is
  called in mode \<^verbatim>\<open>BypassCache.None\<close> with the options \<^verbatim>\<open>-include-runtime -d example.jar\<close>
  and nothing else, the same altered key as for a caller without options; the caller's
  options survive only in the hash, and the runtime is started on \<^verbatim>\<open>example.jar\<close>.
\<close>

theorem C5_requested_options_are_replaced:
  "options_of otherJarKey = [''-d'', ''other.jar'']
   \<and> alteredKey otherJarKey = alteredKey plainKey
   \<and> snd (snd (handleInterpreting (recordingExecEnv (exampleBuild 0 (Some ''/tmp/k''))) []
         otherJarKey twoUserArgs))
       = [[''getOrBuildExecutable'', ''BypassCache.None'', ''key options:'',
           ''-include-runtime'', ''-d'', ''example.jar'',
           ''hash of options:'', ''-d'', ''other.jar''],
          [''java'', ''-Xss136K'', ''-XX:CICompilerCount=2'',
           ''-XX:-UseDynamicNumberOfCompilerThreads'', ''-XX:-UseDynamicNumberOfGCThreads'',
           ''-XX:+UseSerialGC'', ''-cp'', ''/tmp/k'', ''-jar'', ''example.jar'',
           ''alpha'', ''beta'']]"
  by (simp add: handleInterpreting_def recordingExecEnv_def exampleBuild_def alteredKey_def
      javaArguments_def otherJarKey_def plainKey_def twoUserArgs_def bypassName_def Let_def)

section \<open>The Kotlin compiler invocation\<close>

subsection \<open>\<^verbatim>\<open>findIndex\<close> and \<^verbatim>\<open>slice\<close>\<close>

lemma findIndexFrom_found:
  "list_ex p xs \<Longrightarrow> findIndexFrom p k xs = k + int (length (takeWhile (\<lambda>x. \<not> p x) xs))"
  by (induction xs arbitrary: k) auto

lemma findIndexFrom_absent:
  "\<not> list_ex p xs \<Longrightarrow> findIndexFrom p k xs = - 1"
  by (induction xs arbitrary: k) auto

lemma slice_prefix: "n \<le> length xs \<Longrightarrow> slice xs 0 (int n) = take n xs"
  by (simp add: slice_def Let_def)

lemma slice_drop_last: "slice xs 0 (- 1) = butlast xs"
  by (cases "xs = []") (simp_all add: slice_def Let_def butlast_conv_take nat_diff_distrib')

subsection \<open>The variable \<^verbatim>\<open>userOptions\<close>\<close>

text \<open>
  When some element of the options ends in \<^verbatim>\<open>.kt\<close>, \<^verbatim>\<open>userOptions\<close> is the list of the
  elements strictly before the first such element; when none does, \<^verbatim>\<open>findIndex\<close> returns
  \<open>-1\<close> and \<^verbatim>\<open>slice(0, -1)\<close> drops the last element of the options.
\<close>

lemma userOptions_found:
  assumes "list_ex (\<lambda>option. endsWith option ''.kt'') options"
  shows "userOptions options = takeWhile (\<lambda>option. \<not> endsWith option ''.kt'') options"
proof -
  have "length (takeWhile (\<lambda>option. \<not> endsWith option ''.kt'') options) \<le> length options"
    by (rule length_takeWhile_le)
  then show ?thesis
    using assms
    by (simp add: userOptions_def sourceFileOptionIndex_def findIndex_def findIndexFrom_found
        slice_prefix takeWhile_eq_take [symmetric])
qed

lemma userOptions_absent:
  assumes "\<not> list_ex (\<lambda>option. endsWith option ''.kt'') options"
  shows "sourceFileOptionIndex options = - 1" and "userOptions options = butlast options"
proof -
  show "sourceFileOptionIndex options = - 1"
    using assms by (simp add: sourceFileOptionIndex_def findIndex_def findIndexFrom_absent)
  then show "userOptions options = butlast options"
    by (simp add: userOptions_def slice_drop_last)
qed

lemma compact_append: "compact (xs @ ys) = compact xs @ compact ys"
  by (simp add: compact_def)

subsection \<open>Two concrete invocations\<close>

lemma logged_compile_with_empty_option:
  "snd (loggedCompile ['''', ''-Werror'', ''a.kt''] ''/tmp/a.kt'') =
     [[''kotlinc'', ''-cp'', ''/opt/kotlin/lib'', ''-Werror'', ''/tmp/a.kt'']]"
  by (simp add: loggedCompile_def kotlin_runCompiler_def kotlinOptions_def userOptions_def
      sourceFileOptionIndex_def findIndex_def slice_def compact_def endsWith_def
      loggingCompileEnv_def falsyString_def Let_def)

subsection \<open>Claim C10: the user options the compiler receives\<close>

text \<open>
  Claim C10 as it is written says that the user options passed to the compiler invocation are
  exactly the prefix of the options before the first element that ends in \<^verbatim>\<open>.kt\<close>. The
  argument list goes through \<^verbatim>\<open>_.compact\<close>, which removes the empty strings. For the options
  \<^verbatim>\<open>['', '-Werror', 'a.kt']\<close> the prefix is \<^verbatim>\<open>['', '-Werror']\<close>, and the compiler is run on
  the classpath arguments, \<^verbatim>\<open>-Werror\<close> and the input file: the command line is not the
  classpath arguments, the prefix and the input file.
\<close>

theorem C10_empty_user_option_is_not_passed:
  "takeWhile (\<lambda>option. \<not> endsWith option ''.kt'') ['''', ''-Werror'', ''a.kt'']
     = ['''', ''-Werror'']
   \<and> snd (loggedCompile ['''', ''-Werror'', ''a.kt''] ''/tmp/a.kt'')
       = [[''kotlinc'', ''-cp'', ''/opt/kotlin/lib'', ''-Werror'', ''/tmp/a.kt'']]
   \<and> snd (loggedCompile ['''', ''-Werror'', ''a.kt''] ''/tmp/a.kt'')
       \<noteq> [''kotlinc'' # getClasspathArgument loggingCompileEnv
            @ takeWhile (\<lambda>option. \<not> endsWith option ''.kt'') ['''', ''-Werror'', ''a.kt'']
            @ [''/tmp/a.kt'']]"
  by (simp add: logged_compile_with_empty_option) (simp add: endsWith_def loggingCompileEnv_def)

text \<open>
  Claim C10, amended: the variable \<^verbatim>\<open>userOptions\<close> is exactly the prefix of the options
  strictly before the first element that ends in \<^verbatim>\<open>.kt\<close> when there is one, and the options
  without their last element when there is none. The compiler is invoked once, and the user
  options it receives are the non-empty strings of that list, in their order, between the
  non-empty classpath arguments and the input file name (itself dropped when empty).
\<close>

theorem C10_compiler_receives_the_nonempty_user_options:
  fixes E :: "('w, 'x, 'f, 'l, 'i) KotlinCompileEnv"
  assumes "kept = (if list_ex (\<lambda>option. endsWith option ''.kt'') options
                   then takeWhile (\<lambda>option. \<not> endsWith option ''.kt'') options
                   else butlast options)"
    and "execOptions1 = (case eo of None \<Rightarrow> kgetDefaultExecOptions E | Some e \<Rightarrow> e)"
    and "execOptions = (if falsyString (customCwd execOptions1)
                        then execOptions1\<lparr>customCwd := Some (kpath_dirname E inputFile)\<rparr>
                        else execOptions1)"
    and "outcome = kexec E w compiler
                 (filter (\<lambda>a. a \<noteq> []) (getClasspathArgument E)
                  @ filter (\<lambda>option. option \<noteq> []) kept
                  @ filter (\<lambda>a. a \<noteq> []) [inputFile])
                 execOptions"
    and "t = transformToCompilationResult E (fst outcome) inputFile"
  shows "userOptions options = kept
       \<and> kotlin_runCompiler E w compiler options inputFile eo filters =
           (\<lparr>code = code t, timedOut = timedOut t, stdout = stdout t, stderr = stderr t,
             buildsteps = buildsteps t, inputFilename = inputFilename t,
             executableFilename = executableFilename t, dirPath = dirPath t,
             languageId = getCompilerResultLanguageId E filters,
             instructionSet = getInstructionSetFromCompilerArgs E options\<rparr>,
            snd outcome)"
proof -
  have kept: "userOptions options = kept"
    using assms(1) userOptions_found [of options] userOptions_absent(2) [of options]
    by (cases "list_ex (\<lambda>option. endsWith option ''.kt'') options") simp_all
  have "kotlinOptions (getClasspathArgument E) options inputFile =
          filter (\<lambda>a. a \<noteq> []) (getClasspathArgument E)
          @ filter (\<lambda>option. option \<noteq> []) kept
          @ filter (\<lambda>a. a \<noteq> []) [inputFile]"
    unfolding kotlinOptions_def compact_append kept by (simp only: compact_def)
  note passed = this
  have "kotlin_runCompiler E w compiler options inputFile eo filters =
           (\<lparr>code = code t, timedOut = timedOut t, stdout = stdout t, stderr = stderr t,
             buildsteps = buildsteps t, inputFilename = inputFilename t,
             executableFilename = executableFilename t, dirPath = dirPath t,
             languageId = getCompilerResultLanguageId E filters,
             instructionSet = getInstructionSetFromCompilerArgs E options\<rparr>,
            snd outcome)"
    unfolding assms(5) assms(4) assms(3) assms(2)
    by (simp add: kotlin_runCompiler_def Let_def case_prod_beta passed)
  with kept show ?thesis by simp
qed

text \<open>
  Witness for C10: with a source file among the options the two options before it reach the
  compiler; without one, the last of three options is lost.
\<close>

theorem C10_compiler_receives_witness:
  "list_ex (\<lambda>option. endsWith option ''.kt'') [''-Werror'', ''-nowarn'', ''/tmp/example.kt'', ''-x'']
   \<and> userOptions [''-Werror'', ''-nowarn'', ''/tmp/example.kt'', ''-x''] = [''-Werror'', ''-nowarn'']
   \<and> snd (loggedCompile [''-Werror'', ''-nowarn'', ''/tmp/example.kt'', ''-x''] ''/tmp/example.kt'')
       = [[''kotlinc'', ''-cp'', ''/opt/kotlin/lib'', ''-Werror'', ''-nowarn'', ''/tmp/example.kt'']]
   \<and> \<not> list_ex (\<lambda>option. endsWith option ''.kt'') [''-Werror'', ''-nowarn'', ''-x'']
   \<and> userOptions [''-Werror'', ''-nowarn'', ''-x''] = [''-Werror'', ''-nowarn'']
   \<and> snd (loggedCompile [''-Werror'', ''-nowarn'', ''-x''] ''/tmp/example.kt'')
       = [[''kotlinc'', ''-cp'', ''/opt/kotlin/lib'', ''-Werror'', ''-nowarn'', ''/tmp/example.kt'']]"
proof -
  let ?with = "[''-Werror'', ''-nowarn'', ''/tmp/example.kt'', ''-x'']"
  let ?without = "[''-Werror'', ''-nowarn'', ''-x'']"
  have found: "list_ex (\<lambda>option. endsWith option ''.kt'') ?with"
    and absent: "\<not> list_ex (\<lambda>option. endsWith option ''.kt'') ?without"
    by (simp_all add: endsWith_def)
  have prefix: "takeWhile (\<lambda>option. \<not> endsWith option ''.kt'') ?with = [''-Werror'', ''-nowarn'']"
    by (simp add: endsWith_def)
  have env: "kgetDefaultExecOptions loggingCompileEnv = \<lparr>customCwd = None\<rparr>"
    "getClasspathArgument loggingCompileEnv = [''-cp'', ''/opt/kotlin/lib'']"
    "kpath_dirname loggingCompileEnv ''/tmp/example.kt'' = ''/tmp''"
    "\<And>w command argv execParams. snd (kexec loggingCompileEnv w command argv execParams)
        = w @ [command # argv]"
    by (simp_all add: loggingCompileEnv_def)
  note run1 = C10_compiler_receives_the_nonempty_user_options
      [where options = ?with and E = loggingCompileEnv and eo = None
         and inputFile = "''/tmp/example.kt''" and w = "[]" and compiler = "''kotlinc''"
         and filters = noFilters, OF refl refl refl refl refl]
  note run2 = C10_compiler_receives_the_nonempty_user_options
      [where options = ?without and E = loggingCompileEnv and eo = None
         and inputFile = "''/tmp/example.kt''" and w = "[]" and compiler = "''kotlinc''"
         and filters = noFilters, OF refl refl refl refl refl]
  have "userOptions ?with = [''-Werror'', ''-nowarn'']"
    and "snd (loggedCompile ?with ''/tmp/example.kt'')
       = [[''kotlinc'', ''-cp'', ''/opt/kotlin/lib'', ''-Werror'', ''-nowarn'', ''/tmp/example.kt'']]"
    using run1 found prefix env by (simp_all add: loggedCompile_def)
  moreover have "userOptions ?without = [''-Werror'', ''-nowarn'']"
    and "snd (loggedCompile ?without ''/tmp/example.kt'')
       = [[''kotlinc'', ''-cp'', ''/opt/kotlin/lib'', ''-Werror'', ''-nowarn'', ''/tmp/example.kt'']]"
    using run2 absent env by (simp_all add: loggedCompile_def)
  ultimately show ?thesis
    using found absent by simp
qed

end
